theory Spec2Isabelle
  imports Main "HOL-Library.Char_ord" "HOL-Library.List_Lexorder"
begin

section \<open>Python strings\<close>

text \<open>
  A Python \<open>str\<close> is modelled as a \<^typ>\<open>string\<close>, one \<^typ>\<open>char\<close> per code point;
  the model covers code points up to U+00FF. The predicates below are Python's own on
  that range: \<open>str.isspace\<close>, the line boundaries of \<open>str.splitlines\<close>,
  \<open>str.isdigit\<close>. Names that start with an underscore in the source lose it here
  (\<open>_qn\<close> is \<open>qn\<close>, \<open>_parse_table\<close> is \<open>parse_table\<close>).
\<close>

definition isspace :: "char \<Rightarrow> bool" where
  "isspace c \<longleftrightarrow> c \<in> {CHR 0x09, CHR 0x0A, CHR 0x0B, CHR 0x0C, CHR 0x0D,
      CHR 0x1C, CHR 0x1D, CHR 0x1E, CHR 0x1F, CHR 0x20, CHR 0x85, CHR 0xA0}"

definition lstrip :: "string \<Rightarrow> string" where
  "lstrip s = dropWhile isspace s"

definition rstrip :: "string \<Rightarrow> string" where
  "rstrip s = rev (dropWhile isspace (rev s))"

definition strip :: "string \<Rightarrow> string" where
  "strip s = rstrip (lstrip s)"

definition startswith :: "string \<Rightarrow> string \<Rightarrow> bool" where
  "startswith s p \<longleftrightarrow> take (length p) s = p"

definition endswith :: "string \<Rightarrow> string \<Rightarrow> bool" where
  "endswith s p \<longleftrightarrow> length p \<le> length s \<and> drop (length s - length p) s = p"

text \<open>\<open>sep.join(xs)\<close>.\<close>

fun join :: "string \<Rightarrow> string list \<Rightarrow> string" where
  "join sep [] = []"
| "join sep [x] = x"
| "join sep (x # y # ys) = x @ sep @ join sep (y # ys)"

text \<open>
  \<open>s.replace(old, new)\<close> for a non-empty \<open>old\<close> (every call of the source passes a
  non-empty literal): the occurrences are replaced from the left, without overlap.
\<close>

function replace :: "string \<Rightarrow> string \<Rightarrow> string \<Rightarrow> string" where
  "replace old new [] = []"
| "replace old new (c # cs) =
     (if old \<noteq> [] \<and> startswith (c # cs) old
      then new @ replace old new (drop (length old) (c # cs))
      else c # replace old new cs)"
  by pat_completeness auto
termination
  by (relation "measure (\<lambda>(old, new, s). length s)") auto

definition is_ascii_digit :: "char \<Rightarrow> bool" where
  "is_ascii_digit c \<longleftrightarrow> c \<in> set ''0123456789''"

text \<open>
  \<open>str.isdigit\<close>: true of a non-empty string of digit characters, which below U+0100
  are the ASCII digits and the superscripts U+00B2, U+00B3, U+00B9.
\<close>

definition isdigit_char :: "char \<Rightarrow> bool" where
  "isdigit_char c \<longleftrightarrow> is_ascii_digit c \<or> c \<in> {CHR 0xB2, CHR 0xB3, CHR 0xB9}"

definition isdigit :: "string \<Rightarrow> bool" where
  "isdigit s \<longleftrightarrow> s \<noteq> [] \<and> list_all isdigit_char s"

datatype error =
    BadZipFile
  | ParseError
  | ValueError string
  | TypeError

text \<open>\<open>str(n)\<close> of a natural number.\<close>

fun str_nat :: "nat \<Rightarrow> string" where
  "str_nat n =
     (if n < 10 then [char_of (48 + n)]
      else str_nat (n div 10) @ [char_of (48 + n mod 10)])"

definition digit_val :: "char \<Rightarrow> int" where
  "digit_val c = int (of_char c) - 48"

text \<open>
  \<open>int(s)\<close> on a string that passed \<open>isdigit\<close>. The interpreter reads the leading
  ASCII digits and refuses more than 4300 of them (the default
  \<open>sys.get_int_max_str_digits()\<close> of the Python 3.11 the repository runs on), leading
  zeros counted; below the limit the result is the decimal value when all characters
  are ASCII digits, and otherwise the \<open>ValueError\<close> that \<open>int\<close> raises on a
  superscript digit.
\<close>

definition py_int :: "string \<Rightarrow> error + int" where
  "py_int s =
     (if 4300 < length (takeWhile is_ascii_digit s)
      then Inl (ValueError
             (''Exceeds the limit (4300 digits) for integer string conversion: value has ''
              @ str_nat (length (takeWhile is_ascii_digit s))
              @ '' digits; use sys.set_int_max_str_digits() to increase the limit''))
      else if s \<noteq> [] \<and> list_all is_ascii_digit s
      then Inr (foldl (\<lambda>n c. 10 * n + digit_val c) 0 s)
      else Inl (ValueError (''invalid literal for int() with base 10: ''
                              @ [CHR 0x27] @ s @ [CHR 0x27])))"

definition is_linebreak :: "char \<Rightarrow> bool" where
  "is_linebreak c \<longleftrightarrow> c \<in> {CHR 0x0A, CHR 0x0B, CHR 0x0C, CHR 0x0D,
      CHR 0x1C, CHR 0x1D, CHR 0x1E, CHR 0x85}"

text \<open>
  \<open>str.splitlines()\<close>: the line breaks are dropped, CR LF is one break, and a break
  at the very end opens no further line.
\<close>

fun splitlines_from :: "string \<Rightarrow> string \<Rightarrow> string list" where
  "splitlines_from cur [] = (if cur = [] then [] else [cur])"
| "splitlines_from cur [c] =
     (if is_linebreak c then [cur] else [cur @ [c]])"
| "splitlines_from cur (c # d # ds) =
     (if c = CHR 0x0D \<and> d = CHR 0x0A then cur # splitlines_from [] ds
      else if is_linebreak c then cur # splitlines_from [] (d # ds)
      else splitlines_from (cur @ [c]) (d # ds))"

definition splitlines :: "string \<Rightarrow> string list" where
  "splitlines s = splitlines_from [] s"

text \<open>\<open>html.escape(s)\<close> with its default \<open>quote=True\<close>.\<close>

definition escape_char :: "char \<Rightarrow> string" where
  "escape_char c =
     (if c = CHR ''&'' then ''&amp;''
      else if c = CHR ''<'' then ''&lt;''
      else if c = CHR ''>'' then ''&gt;''
      else if c = CHR 0x22 then ''&quot;''
      else if c = CHR 0x27 then ''&#x27;''
      else [c])"

definition html_escape :: "string \<Rightarrow> string" where
  "html_escape s = concat (map escape_char s)"

text \<open>\<open>s or default\<close> on strings.\<close>

definition or_else :: "string \<Rightarrow> string \<Rightarrow> string" where
  "or_else s d = (if s = [] then d else s)"

section \<open>XML elements\<close>

text \<open>
  An \<open>ElementTree\<close> element: tag, attribute dictionary, leading text (\<open>None\<close> when
  absent; the field \<open>text\<close> of the source is \<open>etext\<close> here) and children in document
  order. The tail text is never read by the converter and is left out.
\<close>

datatype elem = Elem (tag: string) (attrib: "(string \<times> string) list")
  (etext: "string option") (children: "elem list")

definition W_NS :: string where
  "W_NS = ''http://schemas.openxmlformats.org/wordprocessingml/2006/main''"

definition R_NS :: string where
  "R_NS = ''http://schemas.openxmlformats.org/officeDocument/2006/relationships''"

definition PKG_REL_NS :: string where
  "PKG_REL_NS = ''http://schemas.openxmlformats.org/package/2006/relationships''"

definition CONTENT_TYPES_NS :: string where
  "CONTENT_TYPES_NS = ''http://schemas.openxmlformats.org/package/2006/content-types''"

definition A_NS :: string where
  "A_NS = ''http://schemas.openxmlformats.org/drawingml/2006/main''"

definition qn :: "string \<Rightarrow> string \<Rightarrow> string" where
  "qn ns name = ''{'' @ ns @ ''}'' @ name"

text \<open>\<open>e.attrib.get(k)\<close>; in a dictionary a key occurs once.\<close>

definition attr_get :: "elem \<Rightarrow> string \<Rightarrow> string option" where
  "attr_get e k = map_of (attrib e) k"

text \<open>\<open>e.findall(t)\<close> and \<open>e.find(t)\<close> look at the direct children only.\<close>

definition findall :: "elem \<Rightarrow> string \<Rightarrow> elem list" where
  "findall e t = filter (\<lambda>c. tag c = t) (children e)"

definition find_child :: "elem \<Rightarrow> string \<Rightarrow> elem option" where
  "find_child e t = List.find (\<lambda>c. tag c = t) (children e)"

text \<open>
  \<open>e.findall(".//t")\<close>: every descendant with that tag, in document order; the
  element itself is not among them.
\<close>

fun subtree :: "elem \<Rightarrow> elem list" where
  "subtree (Elem t a x cs) = Elem t a x cs # concat (map subtree cs)"

definition descendants :: "elem \<Rightarrow> elem list" where
  "descendants e = concat (map subtree (children e))"

definition findall_desc :: "elem \<Rightarrow> string \<Rightarrow> elem list" where
  "findall_desc e t = filter (\<lambda>c. tag c = t) (descendants e)"

definition find_desc :: "elem \<Rightarrow> string \<Rightarrow> elem option" where
  "find_desc e t = List.find (\<lambda>c. tag c = t) (descendants e)"

text \<open>\<open>t.text or ""\<close>.\<close>

definition text_or_empty :: "elem \<Rightarrow> string" where
  "text_or_empty e = (case etext e of None \<Rightarrow> [] | Some s \<Rightarrow> s)"

text \<open>\<open>s.split("}")[-1]\<close>: what follows the last closing brace.\<close>

definition after_last_brace :: "string \<Rightarrow> string" where
  "after_last_brace s = rev (takeWhile (\<lambda>c. c \<noteq> CHR ''}'') (rev s))"

section \<open>The fidelity report\<close>

text \<open>
  The report dictionary of the source. Python integers are unbounded, so the counters
  are of type \<^typ>\<open>int\<close>. The export report has no \<open>source\<close> key: it is \<open>None\<close> there.
\<close>

record mapped =
  styles :: int
  tables :: int
  images :: int
  footnotes :: int
  comments :: int

record report =
  source :: "string option"
  mapped :: mapped
  unsupported_elements :: "string list"
  lossy :: bool

definition zero_mapped :: mapped where
  "zero_mapped = \<lparr>styles = 0, tables = 0, images = 0, footnotes = 0, comments = 0\<rparr>"

definition inc_styles :: "report \<Rightarrow> report" where
  "inc_styles rep = rep\<lparr>mapped := (mapped rep)\<lparr>styles := styles (mapped rep) + 1\<rparr>\<rparr>"

definition inc_tables :: "report \<Rightarrow> report" where
  "inc_tables rep = rep\<lparr>mapped := (mapped rep)\<lparr>tables := tables (mapped rep) + 1\<rparr>\<rparr>"

definition inc_images :: "report \<Rightarrow> report" where
  "inc_images rep = rep\<lparr>mapped := (mapped rep)\<lparr>images := images (mapped rep) + 1\<rparr>\<rparr>"

definition inc_footnotes :: "report \<Rightarrow> report" where
  "inc_footnotes rep = rep\<lparr>mapped := (mapped rep)\<lparr>footnotes := footnotes (mapped rep) + 1\<rparr>\<rparr>"

definition inc_comments :: "report \<Rightarrow> report" where
  "inc_comments rep = rep\<lparr>mapped := (mapped rep)\<lparr>comments := comments (mapped rep) + 1\<rparr>\<rparr>"

text \<open>\<open>report["unsupported_elements"].append(name)\<close>.\<close>

definition add_unsupported :: "report \<Rightarrow> string \<Rightarrow> report" where
  "add_unsupported rep name = rep\<lparr>unsupported_elements := unsupported_elements rep @ [name]\<rparr>"

text \<open>
  \<open>sorted(set(xs))\<close> on strings: the distinct elements in ascending code-point order,
  whatever order the set is iterated in.
\<close>

definition sorted_set :: "string list \<Rightarrow> string list" where
  "sorted_set xs = sort (remdups xs)"

section \<open>The archive and the library\<close>

text \<open>
  An opened archive is its table of members, name to contents: \<open>namelist()\<close> is the
  domain and \<open>read(name)\<close> the lookup (a member that is listed and cannot be
  decompressed is outside the model). What the converter calls but does not define
  is a parameter: opening the archive (\<open>None\<close> for the \<open>BadZipFile\<close> it raises on bytes
  that are no archive), \<open>ET.fromstring\<close> (\<open>None\<close> for its \<open>ParseError\<close>), the
  \<open>markdown\<close> renderer, \<open>base64.b64encode\<close>, and the order in which a set of strings
  built from a list is iterated, which Python leaves open (it follows the hashes of the
  strings, which change from one interpreter process to the next). The reading of the
  clock, \<open>datetime.now(timezone.utc).isoformat()\<close>, is a further argument of the import;
  the export takes all its readings of the clock as one argument. The arguments \<open>filename\<close> and \<open>title\<close> of the source are \<open>name\<close> and \<open>ttl\<close>
  here, the result record having fields of those names.
\<close>

type_synonym archive = "string \<rightharpoonup> string"

record lib =
  ZipFile :: "string \<Rightarrow> archive option"
  fromstring :: "string \<Rightarrow> elem option"
  markdown_render :: "string \<Rightarrow> string"
  b64encode :: "string \<Rightarrow> string"
  set_iter :: "string list \<Rightarrow> string list"

section \<open>Relationships, footnotes and comments\<close>

definition relationship_step :: "(string \<rightharpoonup> string) \<Rightarrow> elem \<Rightarrow> (string \<rightharpoonup> string)" where
  "relationship_step rel_map rel =
     (case (attr_get rel ''Id'', attr_get rel ''Target'') of
        (Some rid, Some target) \<Rightarrow>
          if rid \<noteq> [] \<and> target \<noteq> [] then rel_map(rid \<mapsto> target) else rel_map
      | _ \<Rightarrow> rel_map)"

definition build_relationship_map :: "lib \<Rightarrow> archive \<Rightarrow> error + (string \<rightharpoonup> string)" where
  "build_relationship_map L docx_zip =
     (case docx_zip ''word/_rels/document.xml.rels'' of
        None \<Rightarrow> Inr Map.empty
      | Some data \<Rightarrow>
          (case fromstring L data of
             None \<Rightarrow> Inl ParseError
           | Some root \<Rightarrow>
               Inr (foldl relationship_step Map.empty
                      (findall root (qn PKG_REL_NS ''Relationship'')))))"

text \<open>
  \<open>" ".join(t.text or "" for t in e.findall(".//w:t")).strip()\<close>, the text of one
  footnote or comment entry.
\<close>

definition entry_text :: "elem \<Rightarrow> string" where
  "entry_text e = strip (join '' '' (map text_or_empty (findall_desc e (qn W_NS ''t''))))"

definition footnote_step :: "(string \<rightharpoonup> string) \<Rightarrow> elem \<Rightarrow> (string \<rightharpoonup> string)" where
  "footnote_step fns fn =
     (case attr_get fn (qn W_NS ''id'') of
        None \<Rightarrow> fns
      | Some fn_id \<Rightarrow>
          if fn_id = [] \<or> startswith fn_id ''-'' then fns
          else if entry_text fn \<noteq> [] then fns(fn_id \<mapsto> entry_text fn)
          else fns)"

definition extract_footnotes :: "lib \<Rightarrow> archive \<Rightarrow> error + (string \<rightharpoonup> string)" where
  "extract_footnotes L docx_zip =
     (case docx_zip ''word/footnotes.xml'' of
        None \<Rightarrow> Inr Map.empty
      | Some data \<Rightarrow>
          (case fromstring L data of
             None \<Rightarrow> Inl ParseError
           | Some root \<Rightarrow>
               Inr (foldl footnote_step Map.empty (findall root (qn W_NS ''footnote'')))))"

definition comment_step :: "(string \<rightharpoonup> string) \<Rightarrow> elem \<Rightarrow> (string \<rightharpoonup> string)" where
  "comment_step cms comment =
     (case attr_get comment (qn W_NS ''id'') of
        None \<Rightarrow> cms
      | Some cid \<Rightarrow>
          if cid \<noteq> [] \<and> entry_text comment \<noteq> [] then cms(cid \<mapsto> entry_text comment)
          else cms)"

definition extract_comments :: "lib \<Rightarrow> archive \<Rightarrow> error + (string \<rightharpoonup> string)" where
  "extract_comments L docx_zip =
     (case docx_zip ''word/comments.xml'' of
        None \<Rightarrow> Inr Map.empty
      | Some data \<Rightarrow>
          (case fromstring L data of
             None \<Rightarrow> Inl ParseError
           | Some root \<Rightarrow>
               Inr (foldl comment_step Map.empty (findall root (qn W_NS ''comment'')))))"

section \<open>Runs and tables\<close>

definition run_format :: "elem \<Rightarrow> string \<Rightarrow> string" where
  "run_format run_props t0 =
     (let t1 = (if find_child run_props (qn W_NS ''b'') \<noteq> None then ''**'' @ t0 @ ''**'' else t0);
          t2 = (if find_child run_props (qn W_NS ''i'') \<noteq> None then ''*'' @ t1 @ ''*'' else t1)
      in if find_child run_props (qn W_NS ''u'') \<noteq> None then ''<u>'' @ t2 @ ''</u>'' else t2)"

text \<open>
  \<open>_run_to_markdown\<close> returns the markup of one run and the report as it has left it:
  an image counted, or \<open>drawing\<close> recorded.
\<close>

definition run_to_markdown :: "elem \<Rightarrow> report \<Rightarrow> (string \<rightharpoonup> string) \<Rightarrow> string \<times> report" where
  "run_to_markdown run rep rel_map =
     (let t0 = concat (map text_or_empty (findall run (qn W_NS ''t'')));
          t = (case find_child run (qn W_NS ''rPr'') of
                 None \<Rightarrow> t0
               | Some run_props \<Rightarrow> run_format run_props t0)
      in case find_child run (qn W_NS ''drawing'') of
           None \<Rightarrow> (t, rep)
         | Some drawing \<Rightarrow>
             (case find_desc drawing (qn A_NS ''blip'') of
                None \<Rightarrow> (t, add_unsupported rep ''drawing'')
              | Some blip \<Rightarrow>
                  (case attr_get blip (qn R_NS ''embed'') of
                     None \<Rightarrow> (t, add_unsupported rep ''drawing'')
                   | Some rid \<Rightarrow>
                       if rid \<noteq> [] then
                         (''![Image]('' @ (case rel_map rid of None \<Rightarrow> ''embedded-image''
                                           | Some target \<Rightarrow> target) @ '')'',
                          inc_images rep)
                       else (t, add_unsupported rep ''drawing''))))"

text \<open>The runs of one paragraph, left to right, each on the report the last one left.\<close>

fun runs_to_markdown :: "elem list \<Rightarrow> report \<Rightarrow> (string \<rightharpoonup> string) \<Rightarrow> string list \<times> report" where
  "runs_to_markdown [] rep rel_map = ([], rep)"
| "runs_to_markdown (r # rs) rep rel_map =
     (case run_to_markdown r rep rel_map of
        (t, rep1) \<Rightarrow>
          (case runs_to_markdown rs rep1 rel_map of
             (ts, rep2) \<Rightarrow> (t # ts, rep2)))"

fun cell_paragraphs :: "elem list \<Rightarrow> report \<Rightarrow> (string \<rightharpoonup> string) \<Rightarrow> string list \<times> report" where
  "cell_paragraphs [] rep rel_map = ([], rep)"
| "cell_paragraphs (p # ps) rep rel_map =
     (case runs_to_markdown (findall p (qn W_NS ''r'')) rep rel_map of
        (ts, rep1) \<Rightarrow>
          (case cell_paragraphs ps rep1 rel_map of
             (cells, rep2) \<Rightarrow>
               (if strip (concat ts) \<noteq> [] then strip (concat ts) # cells else cells, rep2)))"

fun row_cells :: "elem list \<Rightarrow> report \<Rightarrow> (string \<rightharpoonup> string) \<Rightarrow> string list \<times> report" where
  "row_cells [] rep rel_map = ([], rep)"
| "row_cells (tc # tcs) rep rel_map =
     (case cell_paragraphs (findall tc (qn W_NS ''p'')) rep rel_map of
        (cells, rep1) \<Rightarrow>
          (case row_cells tcs rep1 rel_map of
             (row, rep2) \<Rightarrow>
               ((if cells \<noteq> [] then join ''<br/>'' cells else []) # row, rep2)))"

fun table_rows :: "elem list \<Rightarrow> report \<Rightarrow> (string \<rightharpoonup> string) \<Rightarrow> string list list \<times> report" where
  "table_rows [] rep rel_map = ([], rep)"
| "table_rows (tr # trs) rep rel_map =
     (case row_cells (findall tr (qn W_NS ''tc'')) rep rel_map of
        (row, rep1) \<Rightarrow>
          (case table_rows trs rep1 rel_map of
             (rows, rep2) \<Rightarrow> (if row \<noteq> [] then row # rows else rows, rep2)))"

text \<open>\<open>f"| {' | '.join(cells)} |"\<close>.\<close>

definition md_row :: "string list \<Rightarrow> string" where
  "md_row cells = ''| '' @ join '' | '' cells @ '' |''"

text \<open>\<open>(row + [""] * max(0, len(header) - len(row)))[:len(header)]\<close>.\<close>

definition pad_row :: "string list \<Rightarrow> string list \<Rightarrow> string list" where
  "pad_row header row =
     take (length header)
       (row @ replicate (nat (max 0 (int (length header) - int (length row)))) [])"

definition parse_table :: "elem \<Rightarrow> report \<Rightarrow> (string \<rightharpoonup> string) \<Rightarrow> string \<times> report" where
  "parse_table table rep rel_map =
     (case table_rows (findall table (qn W_NS ''tr'')) rep rel_map of
        (rows, rep1) \<Rightarrow>
          (case rows of
             [] \<Rightarrow> ([], rep1)
           | header # rest \<Rightarrow>
               (join [CHR 0x0A]
                  (md_row header # md_row (replicate (length header) ''---'')
                     # map (\<lambda>row. md_row (pad_row header row)) rest),
                inc_tables rep1)))"

section \<open>Import\<close>

record attachment =
  filename :: string
  mime_type :: string
  content_base64 :: string
  stored_at :: string

record DocxConversionResult =
  title :: string
  markdown :: string
  html :: string
  report :: report
  original_attachment :: "attachment option"

text \<open>What the walk over the body carries from one child to the next.\<close>

record walk =
  walk_report :: report
  blocks :: "string list"
  encountered_comments :: "string list"
  encountered_footnotes :: "string list"

text \<open>
  The heading prefix of a style name, and the report with the style counted. \<open>int\<close>
  raises on a level that \<open>isdigit\<close> lets through and that is no decimal number, or
  that is too long.
\<close>

definition style_prefix :: "string \<Rightarrow> report \<Rightarrow> error + (string \<times> report)" where
  "style_prefix style_val rep =
     (if startswith style_val ''Heading'' then
        (let level = replace ''Heading'' [] style_val in
         if isdigit level then
           (case py_int level of
              Inl e \<Rightarrow> Inl e
            | Inr n \<Rightarrow> Inr (replicate (nat (min 6 n)) (CHR ''#'') @ '' '', inc_styles rep))
         else Inr ([], rep))
      else if style_val \<in> {''Title'', ''Subtitle''} then
        Inr (if style_val = ''Subtitle'' then ''## '' else ''# '', inc_styles rep)
      else Inr ([], rep))"

definition paragraph_prefix :: "elem \<Rightarrow> report \<Rightarrow> error + (string \<times> report)" where
  "paragraph_prefix child rep =
     (case find_child child (qn W_NS ''pPr'') of
        None \<Rightarrow> Inr ([], rep)
      | Some p_props \<Rightarrow>
          (case find_child p_props (qn W_NS ''pStyle'') of
             None \<Rightarrow> Inr ([], rep)
           | Some p_style \<Rightarrow>
               style_prefix
                 (case attr_get p_style (qn W_NS ''val'') of None \<Rightarrow> [] | Some v \<Rightarrow> v) rep))"

definition footnote_ref_step ::
  "(string \<rightharpoonup> string) \<Rightarrow> string list \<times> walk \<Rightarrow> elem \<Rightarrow> string list \<times> walk" where
  "footnote_ref_step fns ps fn_ref =
     (case attr_get fn_ref (qn W_NS ''id'') of
        None \<Rightarrow> ps
      | Some fn_id \<Rightarrow>
          if fn_id \<noteq> [] \<and> fns fn_id \<noteq> None then
            (fst ps @ [''[^'' @ fn_id @ '']''],
             (snd ps)\<lparr>encountered_footnotes := encountered_footnotes (snd ps) @ [fn_id],
                      walk_report := inc_footnotes (walk_report (snd ps))\<rparr>)
          else ps)"

definition comment_ref_step ::
  "(string \<rightharpoonup> string) \<Rightarrow> string list \<times> walk \<Rightarrow> elem \<Rightarrow> string list \<times> walk" where
  "comment_ref_step cms ps comment_ref =
     (case attr_get comment_ref (qn W_NS ''id'') of
        None \<Rightarrow> ps
      | Some cid \<Rightarrow>
          if cid \<noteq> [] \<and> cms cid \<noteq> None then
            (fst ps @ [''[comment:'' @ cid @ '']''],
             (snd ps)\<lparr>encountered_comments := encountered_comments (snd ps) @ [cid],
                      walk_report := inc_comments (walk_report (snd ps))\<rparr>)
          else ps)"

text \<open>
  The list \<open>parts\<close> of a paragraph, and the walk as the three inner loops leave it: the
  runs, then the footnote references, then the comment references.
\<close>

definition paragraph_parts ::
  "elem \<Rightarrow> walk \<Rightarrow> report \<Rightarrow> (string \<rightharpoonup> string) \<Rightarrow> (string \<rightharpoonup> string)
     \<Rightarrow> (string \<rightharpoonup> string) \<Rightarrow> string list \<times> walk" where
  "paragraph_parts child st rep1 rel_map fns cms =
     (case runs_to_markdown (findall child (qn W_NS ''r'')) rep1 rel_map of
        (ts, rep2) \<Rightarrow>
          foldl (comment_ref_step cms)
            (foldl (footnote_ref_step fns) (ts, st\<lparr>walk_report := rep2\<rparr>)
               (findall_desc child (qn W_NS ''footnoteReference'')))
            (findall_desc child (qn W_NS ''commentReference'')))"

text \<open>The branch of the body loop for a \<open>w:p\<close> child.\<close>

definition import_paragraph ::
  "elem \<Rightarrow> walk \<Rightarrow> (string \<rightharpoonup> string) \<Rightarrow> (string \<rightharpoonup> string) \<Rightarrow> (string \<rightharpoonup> string)
     \<Rightarrow> error + walk" where
  "import_paragraph child st rel_map fns cms =
     (case paragraph_prefix child (walk_report st) of
        Inl e \<Rightarrow> Inl e
      | Inr (prefix, rep1) \<Rightarrow>
          (case paragraph_parts child st rep1 rel_map fns cms of
             (parts, st1) \<Rightarrow>
               Inr (if strip (prefix @ concat parts) \<noteq> []
                    then st1\<lparr>blocks := blocks st1 @ [strip (prefix @ concat parts)]\<rparr>
                    else st1)))"

text \<open>The branch for a \<open>w:tbl\<close> child.\<close>

definition import_table :: "elem \<Rightarrow> walk \<Rightarrow> (string \<rightharpoonup> string) \<Rightarrow> walk" where
  "import_table child st rel_map =
     (case parse_table child (walk_report st) rel_map of
        (table_md, rep1) \<Rightarrow>
          (if table_md \<noteq> []
           then st\<lparr>walk_report := rep1, blocks := blocks st @ [table_md]\<rparr>
           else st\<lparr>walk_report := rep1\<rparr>))"

fun walk_body ::
  "elem list \<Rightarrow> walk \<Rightarrow> (string \<rightharpoonup> string) \<Rightarrow> (string \<rightharpoonup> string) \<Rightarrow> (string \<rightharpoonup> string)
     \<Rightarrow> error + walk" where
  "walk_body [] st rel_map fns cms = Inr st"
| "walk_body (child # rest) st rel_map fns cms =
     (if tag child = qn W_NS ''p'' then
        (case import_paragraph child st rel_map fns cms of
           Inl e \<Rightarrow> Inl e
         | Inr st1 \<Rightarrow> walk_body rest st1 rel_map fns cms)
      else if tag child = qn W_NS ''tbl'' then
        walk_body rest (import_table child st rel_map) rel_map fns cms
      else if tag child \<noteq> qn W_NS ''sectPr'' then
        walk_body rest
          (st\<lparr>walk_report := add_unsupported (walk_report st) (after_last_brace (tag child))\<rparr>)
          rel_map fns cms
      else walk_body rest st rel_map fns cms)"

subsection \<open>The order of the trailing sections\<close>

text \<open>
  The key of the source, \<open>int(x) if x.isdigit() else x\<close>, is an integer or a string.
  Python compares integers with integers and strings with strings, and raises
  \<open>TypeError\<close> on an integer against a string. A comparison sort of a list that
  holds keys of both kinds cannot finish without such a comparison, so \<open>sorted\<close> raises
  there; on keys of one kind it is a stable sort. The keys are computed first, in list
  order, so a failing \<open>int\<close> is raised before any comparison. The list sorted is the set
  of the ids as the library iterates it; that order shows in the result only among ids
  of equal key (as \<open>1\<close> and \<open>01\<close>).
\<close>

datatype sort_key = KInt int | KStr string

definition id_key :: "string \<Rightarrow> error + sort_key" where
  "id_key x =
     (if isdigit x then (case py_int x of Inl e \<Rightarrow> Inl e | Inr n \<Rightarrow> Inr (KInt n))
      else Inr (KStr x))"

fun id_keys :: "string list \<Rightarrow> error + (sort_key \<times> string) list" where
  "id_keys [] = Inr []"
| "id_keys (x # xs) =
     (case id_key x of
        Inl e \<Rightarrow> Inl e
      | Inr k \<Rightarrow> (case id_keys xs of Inl e \<Rightarrow> Inl e | Inr ks \<Rightarrow> Inr ((k, x) # ks)))"

definition is_KInt :: "sort_key \<Rightarrow> bool" where
  "is_KInt k = (case k of KInt n \<Rightarrow> True | KStr s \<Rightarrow> False)"

definition int_of_key :: "sort_key \<Rightarrow> int" where
  "int_of_key k = (case k of KInt n \<Rightarrow> n | KStr s \<Rightarrow> 0)"

definition str_of_key :: "sort_key \<Rightarrow> string" where
  "str_of_key k = (case k of KInt n \<Rightarrow> [] | KStr s \<Rightarrow> s)"

definition sorted_ids :: "lib \<Rightarrow> string list \<Rightarrow> error + string list" where
  "sorted_ids L xs =
     (case id_keys (set_iter L xs) of
        Inl e \<Rightarrow> Inl e
      | Inr ks \<Rightarrow>
          if list_ex (\<lambda>p. is_KInt (fst p)) ks \<and> list_ex (\<lambda>p. \<not> is_KInt (fst p)) ks
          then Inl TypeError
          else if list_all (\<lambda>p. is_KInt (fst p)) ks
          then Inr (map snd (sort_key (\<lambda>p. int_of_key (fst p)) ks))
          else Inr (map snd (sort_key (\<lambda>p. str_of_key (fst p)) ks)))"

text \<open>\<open>table[k]\<close> on a key that the walk has checked to be there.\<close>

definition lookup_text :: "(string \<rightharpoonup> string) \<Rightarrow> string \<Rightarrow> string" where
  "lookup_text table k = (case table k of None \<Rightarrow> [] | Some v \<Rightarrow> v)"

definition footnote_section ::
  "lib \<Rightarrow> (string \<rightharpoonup> string) \<Rightarrow> string list \<Rightarrow> error + string list" where
  "footnote_section L fns enc =
     (if enc = [] then Inr []
      else (case sorted_ids L enc of
              Inl e \<Rightarrow> Inl e
            | Inr ids \<Rightarrow>
                Inr (([CHR 0x0A] @ ''## Footnotes'')
                     # map (\<lambda>fid. ''[^'' @ fid @ '']: '' @ lookup_text fns fid) ids)))"

definition comment_section ::
  "lib \<Rightarrow> (string \<rightharpoonup> string) \<Rightarrow> string list \<Rightarrow> error + string list" where
  "comment_section L cms enc =
     (if enc = [] then Inr []
      else (case sorted_ids L enc of
              Inl e \<Rightarrow> Inl e
            | Inr ids \<Rightarrow>
                Inr (([CHR 0x0A] @ ''## Comments'')
                     # map (\<lambda>cid. ''- ['' @ cid @ ''] '' @ lookup_text cms cid) ids)))"

subsection \<open>The title\<close>

definition lower_char :: "char \<Rightarrow> char" where
  "lower_char c =
     (if 65 \<le> (of_char c :: nat) \<and> (of_char c :: nat) \<le> 90
      then char_of ((of_char c :: nat) + 32) else c)"

text \<open>
  \<open>re.sub(r"\.docx$", "", filename, flags=re.IGNORECASE)\<close>: the dollar matches at the
  end of the string and also before a newline that ends it.
\<close>

definition strip_docx :: "string \<Rightarrow> string" where
  "strip_docx name =
     (if endswith (map lower_char name) ''.docx'' then take (length name - 5) name
      else if endswith (map lower_char name) (''.docx'' @ [CHR 0x0A])
      then take (length name - 6) name @ [CHR 0x0A]
      else name)"

subsection \<open>The entry point\<close>

definition initial_report :: "string \<Rightarrow> report" where
  "initial_report name =
     \<lparr>source = Some name, mapped = zero_mapped, unsupported_elements = [], lossy = False\<rparr>"

text \<open>
  The statements of \<open>import_docx\<close> after the body walk: the two trailing sections,
  the joined markup, the report made final, the attachment and the title.
\<close>

definition finish_import ::
  "lib \<Rightarrow> string \<Rightarrow> string \<Rightarrow> string \<Rightarrow> bool \<Rightarrow> (string \<rightharpoonup> string) \<Rightarrow> (string \<rightharpoonup> string)
     \<Rightarrow> walk \<Rightarrow> error + DocxConversionResult" where
  "finish_import L now content name store_original_attachment fns cms st =
     (case footnote_section L fns (encountered_footnotes st) of
        Inl e \<Rightarrow> Inl e
      | Inr fsec \<Rightarrow>
          (case comment_section L cms (encountered_comments st) of
             Inl e \<Rightarrow> Inl e
           | Inr csec \<Rightarrow>
               (let markdown_content =
                      strip (join [CHR 0x0A, CHR 0x0A] (blocks st @ fsec @ csec));
                    unsupported = sorted_set (unsupported_elements (walk_report st))
                in Inr \<lparr>title = or_else (strip_docx name) ''Imported Document'',
                        markdown = markdown_content,
                        html = markdown_render L markdown_content,
                        report = (walk_report st)\<lparr>unsupported_elements := unsupported,
                                                   lossy := (unsupported \<noteq> [])\<rparr>,
                        original_attachment =
                          (if store_original_attachment
                           then Some \<lparr>filename = name,
                                      mime_type = ''application/vnd.openxmlformats-officedocument.wordprocessingml.document'',
                                      content_base64 = b64encode L content,
                                      stored_at = now\<rparr>
                           else None)\<rparr>)))"

definition import_docx ::
  "lib \<Rightarrow> string \<Rightarrow> string \<Rightarrow> string \<Rightarrow> bool \<Rightarrow> error + DocxConversionResult" where
  "import_docx L now content name store_original_attachment =
     (case ZipFile L content of
        None \<Rightarrow> Inl BadZipFile
      | Some docx_zip \<Rightarrow>
          (case docx_zip ''word/document.xml'' of
             None \<Rightarrow> Inl (ValueError ''Invalid DOCX file: missing word/document.xml'')
           | Some document \<Rightarrow>
               (case build_relationship_map L docx_zip of
                  Inl e \<Rightarrow> Inl e
                | Inr rel_map \<Rightarrow>
                    (case extract_footnotes L docx_zip of
                       Inl e \<Rightarrow> Inl e
                     | Inr fns \<Rightarrow>
                         (case extract_comments L docx_zip of
                            Inl e \<Rightarrow> Inl e
                          | Inr cms \<Rightarrow>
                              (case fromstring L document of
                                 None \<Rightarrow> Inl ParseError
                               | Some root \<Rightarrow>
                                   (case find_child root (qn W_NS ''body'') of
                                      None \<Rightarrow> Inl (ValueError ''Invalid DOCX file: missing body'')
                                    | Some body \<Rightarrow>
                                        (case walk_body (children body)
                                                \<lparr>walk_report = initial_report name, blocks = [],
                                                 encountered_comments = [],
                                                 encountered_footnotes = []\<rparr>
                                                rel_map fns cms of
                                           Inl e \<Rightarrow> Inl e
                                         | Inr st \<Rightarrow>
                                             finish_import L now content name
                                               store_original_attachment fns cms st))))))))"

section \<open>Export\<close>

subsection \<open>The line scanner\<close>

text \<open>\<open>line.strip().startswith("|") and line.strip().endswith("|")\<close>.\<close>

definition is_table_line :: "string \<Rightarrow> bool" where
  "is_table_line line \<longleftrightarrow> startswith (strip line) ''|'' \<and> endswith (strip line) ''|''"

text \<open>\<open>set(line.replace("|", "").strip()) == {"-"} or not line.strip()\<close>.\<close>

definition is_separator_or_blank :: "string \<Rightarrow> bool" where
  "is_separator_or_blank line \<longleftrightarrow>
     set (strip (replace ''|'' [] line)) = {CHR ''-''} \<or> strip line = []"

text \<open>The end of the loop body: the paragraph element of a line that is not blank.\<close>

definition render_line :: "string \<Rightarrow> string" where
  \<open>render_line line =
     (let heading_level = length (takeWhile (\<lambda>c. c = CHR ''#'') line);
          t = (if heading_level \<noteq> 0 \<and> take 1 (drop heading_level line) = '' ''
               then strip (drop heading_level line) else line);
          escaped = html_escape t;
          ppr = (if 1 \<le> heading_level \<and> heading_level \<le> 6
                 then ''<w:pPr><w:pStyle w:val="Heading'' @ str_nat heading_level @ ''"/></w:pPr>''
                 else [])
      in ''<w:p>'' @ ppr @ ''<w:r><w:t xml:space="preserve">'' @ escaped @ ''</w:t></w:r></w:p>'')\<close>

text \<open>
  One turn of the loop of \<open>_md_to_docx_xml\<close>: from \<open>in_table\<close> and a line to the new
  \<open>in_table\<close> and the paragraph appended, if any.
\<close>

definition scan_step :: "bool \<Rightarrow> string \<Rightarrow> bool \<times> string option" where
  "scan_step in_table line =
     (if is_table_line line then (True, None)
      else if in_table \<and> is_separator_or_blank line then (in_table, None)
      else (let in_table1 = (if in_table \<and> \<not> is_table_line line then False else in_table)
            in if strip line = [] then (in_table1, Some ''<w:p/>'')
               else (in_table1, Some (render_line line))))"

fun scan_lines :: "bool \<Rightarrow> string list \<Rightarrow> string list" where
  "scan_lines in_table [] = []"
| "scan_lines in_table (line # rest) =
     (case scan_step in_table line of
        (in_table1, None) \<Rightarrow> scan_lines in_table1 rest
      | (in_table1, Some p) \<Rightarrow> p # scan_lines in_table1 rest)"

definition document_head :: string where
  \<open>document_head =
     ''<?xml version="1.0" encoding="UTF-8" standalone="yes"?>'' @ [CHR 0x0A] @
     ''<w:document xmlns:wpc="http://schemas.microsoft.com/office/word/2010/wordprocessingCanvas" xmlns:mc="http://schemas.openxmlformats.org/markup-compatibility/2006" xmlns:o="urn:schemas-microsoft-com:office:office" xmlns:r="'' @ R_NS @
     ''" xmlns:m="http://schemas.openxmlformats.org/officeDocument/2006/math" xmlns:v="urn:schemas-microsoft-com:vml" xmlns:wp14="http://schemas.microsoft.com/office/word/2010/wordprocessingDrawing" xmlns:wp="http://schemas.openxmlformats.org/drawingml/2006/wordprocessingDrawing" xmlns:w10="urn:schemas-microsoft-com:office:word" xmlns:w="'' @ W_NS @
     ''" mc:Ignorable="w14 wp14">'' @ [CHR 0x0A] @ ''  <w:body>''\<close>

definition document_tail :: string where
  \<open>document_tail =
     ''<w:sectPr><w:pgSz w:w="12240" w:h="15840"/><w:pgMar w:top="1440" w:right="1440" w:bottom="1440" w:left="1440"/></w:sectPr></w:body>'' @ [CHR 0x0A] @
     ''</w:document>''\<close>

definition md_to_docx_xml :: "string \<Rightarrow> string \<Rightarrow> string" where
  "md_to_docx_xml ttl md =
     document_head @ concat (scan_lines False (splitlines md)) @ document_tail"

subsection \<open>The patterns of the export report\<close>

fun tails :: "string \<Rightarrow> string list" where
  "tails [] = [[]]"
| "tails (c # cs) = (c # cs) # tails cs"

text \<open>\<open>re.search(p, s)\<close>, with \<open>p\<close> given as the test of a match at the start of a string.\<close>

definition search :: "(string \<Rightarrow> bool) \<Rightarrow> string \<Rightarrow> bool" where
  "search match_at s = list_ex match_at (tails s)"

text \<open>The starts of lines under \<open>re.MULTILINE\<close>: the string itself and what follows each newline.\<close>

fun after_newlines :: "string \<Rightarrow> string list" where
  "after_newlines [] = []"
| "after_newlines (c # cs) =
     (if c = CHR 0x0A then cs # after_newlines cs else after_newlines cs)"

text \<open>
  \<open>^#{1,6}\s\<close> at the start of a line: one to six hashes and then a whitespace
  character; after seven hashes or more no count of hashes is followed by whitespace.
\<close>

definition heading_marker_at :: "string \<Rightarrow> bool" where
  "heading_marker_at s \<longleftrightarrow>
     (let h = length (takeWhile (\<lambda>c. c = CHR ''#'') s)
      in 1 \<le> h \<and> h \<le> 6 \<and> (case drop h s of [] \<Rightarrow> False | c # cs \<Rightarrow> isspace c))"

text \<open>\<open>len(re.findall(r"^#{1,6}\s", md, flags=re.MULTILINE))\<close>; two matches never overlap.\<close>

definition count_heading_markers :: "string \<Rightarrow> int" where
  "count_heading_markers md = int (length (filter heading_marker_at (md # after_newlines md)))"

text \<open>\<open>\|.*\|\<close>: two pipes with no newline between them.\<close>

definition table_syntax_at :: "string \<Rightarrow> bool" where
  "table_syntax_at s \<longleftrightarrow>
     (case s of [] \<Rightarrow> False
      | c # cs \<Rightarrow> c = CHR ''|'' \<and> CHR ''|'' \<in> set (takeWhile (\<lambda>d. d \<noteq> CHR 0x0A) cs))"

text \<open>
  \<open>[^c]*c\<close> and \<open>[^c]+c\<close> at the start of a string, returning what follows the match:
  the class cannot give back a character to the \<open>c\<close> that follows it.
\<close>

definition upto_char :: "char \<Rightarrow> bool \<Rightarrow> string \<Rightarrow> string option" where
  "upto_char c nonempty s =
     (case dropWhile (\<lambda>d. d \<noteq> c) s of
        [] \<Rightarrow> None
      | d # ds \<Rightarrow> if nonempty \<and> takeWhile (\<lambda>d. d \<noteq> c) s = [] then None else Some ds)"

text \<open>\<open>!\[[^\]]*\]\([^\)]+\)\<close>.\<close>

definition image_syntax_at :: "string \<Rightarrow> bool" where
  "image_syntax_at s \<longleftrightarrow>
     startswith s ''!['' \<and>
     (case upto_char (CHR '']'') False (drop 2 s) of
        None \<Rightarrow> False
      | Some r \<Rightarrow> startswith r ''('' \<and> upto_char (CHR '')'') True (drop 1 r) \<noteq> None)"

text \<open>\<open>\[\^[^\]]+\]\<close>.\<close>

definition footnote_syntax_at :: "string \<Rightarrow> bool" where
  "footnote_syntax_at s \<longleftrightarrow>
     startswith s ''[^'' \<and> upto_char (CHR '']'') True (drop 2 s) \<noteq> None"

definition export_report :: "string \<Rightarrow> report" where
  "export_report markdown_content =
     (let u1 = (if search table_syntax_at markdown_content then [''tables''] else []);
          u2 = (if search image_syntax_at markdown_content then u1 @ [''images''] else u1);
          u3 = (if search footnote_syntax_at markdown_content then u2 @ [''footnotes''] else u2);
          unsupported = sorted_set u3
      in \<lparr>source = None,
          mapped = zero_mapped\<lparr>styles := count_heading_markers markdown_content\<rparr>,
          unsupported_elements = unsupported,
          lossy = (unsupported \<noteq> [])\<rparr>)"

subsection \<open>The parts of the container\<close>

definition xml_decl :: string where
  \<open>xml_decl = ''<?xml version="1.0" encoding="UTF-8" standalone="yes"?>'' @ [CHR 0x0A]\<close>

definition content_types :: string where
  \<open>content_types =
     xml_decl @ ''<Types xmlns="'' @ CONTENT_TYPES_NS @ ''">'' @ [CHR 0x0A] @
     ''  <Default Extension="rels" ContentType="application/vnd.openxmlformats-package.relationships+xml"/>'' @ [CHR 0x0A] @
     ''  <Default Extension="xml" ContentType="application/xml"/>'' @ [CHR 0x0A] @
     ''  <Override PartName="/word/document.xml" ContentType="application/vnd.openxmlformats-officedocument.wordprocessingml.document.main+xml"/>'' @ [CHR 0x0A] @
     ''  <Override PartName="/docProps/core.xml" ContentType="application/vnd.openxmlformats-package.core-properties+xml"/>'' @ [CHR 0x0A] @
     ''  <Override PartName="/docProps/app.xml" ContentType="application/vnd.openxmlformats-officedocument.extended-properties+xml"/>'' @ [CHR 0x0A] @
     ''</Types>''\<close>

definition rels :: string where
  \<open>rels =
     xml_decl @ ''<Relationships xmlns="'' @ PKG_REL_NS @ ''">'' @ [CHR 0x0A] @
     ''  <Relationship Id="rId1" Type="http://schemas.openxmlformats.org/officeDocument/2006/relationships/officeDocument" Target="word/document.xml"/>'' @ [CHR 0x0A] @
     ''  <Relationship Id="rId2" Type="http://schemas.openxmlformats.org/package/2006/relationships/metadata/core-properties" Target="docProps/core.xml"/>'' @ [CHR 0x0A] @
     ''  <Relationship Id="rId3" Type="http://schemas.openxmlformats.org/officeDocument/2006/relationships/extended-properties" Target="docProps/app.xml"/>'' @ [CHR 0x0A] @
     ''</Relationships>''\<close>

definition app_xml :: string where
  \<open>app_xml =
     xml_decl @
     ''<Properties xmlns="http://schemas.openxmlformats.org/officeDocument/2006/extended-properties" xmlns:vt="http://schemas.openxmlformats.org/officeDocument/2006/docPropsVTypes"><Application>Open WebUI</Application></Properties>''\<close>

text \<open>
  The core properties carry the title and, twice, the reading of the clock with
  \<open>+00:00\<close> replaced by \<open>Z\<close>.
\<close>

definition core_xml :: "string \<Rightarrow> string \<Rightarrow> string" where
  \<open>core_xml now ttl =
     (let stamp = replace ''+00:00'' ''Z'' now
      in xml_decl @
         ''<cp:coreProperties xmlns:cp="http://schemas.openxmlformats.org/package/2006/metadata/core-properties" xmlns:dc="http://purl.org/dc/elements/1.1/" xmlns:dcterms="http://purl.org/dc/terms/" xmlns:dcmitype="http://purl.org/dc/dcmitype/" xmlns:xsi="http://www.w3.org/2001/XMLSchema-instance"><dc:title>'' @
         html_escape ttl @
         ''</dc:title><dc:creator>Open WebUI</dc:creator><cp:lastModifiedBy>Open WebUI</cp:lastModifiedBy><dcterms:created xsi:type="dcterms:W3CDTF">'' @
         stamp @
         ''</dcterms:created><dcterms:modified xsi:type="dcterms:W3CDTF">'' @
         stamp @
         ''</dcterms:modified></cp:coreProperties>'')\<close>

text \<open>
  An export reads the clock six times: once as \<open>datetime.now(timezone.utc).isoformat()\<close>
  for the core properties, and once in each of the five \<open>writestr\<close> calls, where
  \<open>zipfile\<close> stamps the entry with \<open>time.localtime(time.time())[:6]\<close>, the local
  year, month, day, hour, minute and second.
\<close>

type_synonym date_time = "int \<times> int \<times> int \<times> int \<times> int \<times> int"

record clock =
  utc_iso :: string
  written_at :: "nat \<Rightarrow> date_time"

record zip_entry =
  entry_name :: string
  date_time :: date_time
  entry_data :: string

text \<open>\<open>docx.writestr(name, data)\<close>, as the \<open>i\<close>-th write of the call.\<close>

definition writestr :: "clock \<Rightarrow> nat \<Rightarrow> string \<Rightarrow> string \<Rightarrow> zip_entry" where
  "writestr clk i name data =
     \<lparr>entry_name = name, date_time = written_at clk i, entry_data = data\<rparr>"

text \<open>
  The container is the list of the entries written to the archive, in the order of the
  \<open>writestr\<close> calls, each with its name, its time stamp and its contents; the deflate
  stream and the headers that \<open>zipfile\<close> makes of them are the library's.
\<close>

definition export_note_to_docx ::
  "clock \<Rightarrow> string \<Rightarrow> string \<Rightarrow> zip_entry list \<times> report" where
  "export_note_to_docx clk ttl markdown_content =
     ([writestr clk 0 ''[Content_Types].xml'' content_types,
       writestr clk 1 ''_rels/.rels'' rels,
       writestr clk 2 ''docProps/app.xml'' app_xml,
       writestr clk 3 ''docProps/core.xml'' (core_xml (utc_iso clk) ttl),
       writestr clk 4 ''word/document.xml'' (md_to_docx_xml ttl markdown_content)],
      export_report markdown_content)"

section \<open>Sample documents\<close>

text \<open>
  Concrete documents on which the theorems below are instantiated: builders for the
  elements of a main document part, and a library whose archive and parser are finite
  tables (the bytes \<open>PK\<close> open as the given members, every other input is no archive),
  whose renderer wraps the markup in one paragraph element, whose encoder is the identity
  and whose sets iterate in the order of \<open>remdups\<close>.
\<close>

definition sample_p :: "elem list \<Rightarrow> elem" where
  "sample_p cs = Elem (qn W_NS ''p'') [] None cs"

definition sample_r :: "string \<Rightarrow> elem" where
  "sample_r s = Elem (qn W_NS ''r'') [] None [Elem (qn W_NS ''t'') [] (Some s) []]"


definition sample_doc :: "elem list \<Rightarrow> elem" where
  "sample_doc cs = Elem (qn W_NS ''document'') [] None [Elem (qn W_NS ''body'') [] None cs]"

definition sample_lib :: "(string \<times> string) list \<Rightarrow> (string \<times> elem) list \<Rightarrow> lib" where
  "sample_lib members trees =
     \<lparr>ZipFile = (\<lambda>c. if c = ''PK'' then Some (map_of members) else None),
      fromstring = map_of trees,
      markdown_render = (\<lambda>s. ''<p>'' @ s @ ''</p>''),
      b64encode = (\<lambda>s. s),
      set_iter = remdups\<rparr>"

text \<open>A library whose archive holds the main document part \<open>d\<close> only.\<close>

definition sample_lib_doc :: "elem \<Rightarrow> lib" where
  "sample_lib_doc d = sample_lib [(''word/document.xml'', ''D'')] [(''D'', d)]"

definition sample_tc :: "string \<Rightarrow> elem" where
  "sample_tc s = Elem (qn W_NS ''tc'') [] None [sample_p [sample_r s]]"

definition sample_tr :: "elem list \<Rightarrow> elem" where
  "sample_tr cs = Elem (qn W_NS ''tr'') [] None cs"

definition sample_tbl :: "elem list \<Rightarrow> elem" where
  "sample_tbl cs = Elem (qn W_NS ''tbl'') [] None cs"

text \<open>A run that holds a footnote reference, and an entry of the footnotes or comments part.\<close>

definition sample_fn_ref :: "string \<Rightarrow> elem" where
  "sample_fn_ref i =
     Elem (qn W_NS ''r'') [] None
       [Elem (qn W_NS ''footnoteReference'') [(qn W_NS ''id'', i)] None []]"

definition sample_entry :: "string \<Rightarrow> (string \<times> string) list \<Rightarrow> string \<Rightarrow> elem" where
  "sample_entry kind attrs s = Elem (qn W_NS kind) attrs None [sample_p [sample_r s]]"

text \<open>
  A footnotes part with a separator entry, an ordinary entry, an entry without id and an
  entry of blank text; a comments part whose one entry has the id \<open>-1\<close>; and a
  library whose archive holds the two.
\<close>

definition sample_footnotes_part :: elem where
  "sample_footnotes_part =
     Elem (qn W_NS ''footnotes'') [] None
       [sample_entry ''footnote'' [(qn W_NS ''id'', ''-1'')] ''sep'',
        sample_entry ''footnote'' [(qn W_NS ''id'', ''2'')] ''two'',
        sample_entry ''footnote'' [] ''lost'',
        sample_entry ''footnote'' [(qn W_NS ''id'', ''3'')] ''  '']"

definition sample_comments_part :: elem where
  "sample_comments_part =
     Elem (qn W_NS ''comments'') [] None
       [sample_entry ''comment'' [(qn W_NS ''id'', ''-1'')] ''note'']"

definition sample_aux_members :: "(string \<times> string) list" where
  "sample_aux_members = [(''word/footnotes.xml'', ''F''), (''word/comments.xml'', ''C'')]"

definition sample_aux_lib :: lib where
  "sample_aux_lib =
     sample_lib sample_aux_members
       [(''F'', sample_footnotes_part), (''C'', sample_comments_part)]"



section \<open>The report invariant\<close>

lemma finish_import_lossy:
  "finish_import L now content name store fns cms st = Inr res \<Longrightarrow>
     lossy (report res) = (unsupported_elements (report res) \<noteq> [])"
  by (auto simp: finish_import_def Let_def split: sum.splits)

lemma import_docx_finish:
  "import_docx L now content name store = Inr res \<Longrightarrow>
     \<exists>fns cms st. finish_import L now content name store fns cms st = Inr res"
  unfolding import_docx_def by (auto split: option.splits sum.splits)

text \<open>
  C1. The report that an import returns, and the report that an export returns, has
  \<open>lossy\<close> equal to \<open>unsupported_elements\<close> being non-empty: both entry points set
  \<open>lossy\<close> last, from the list they have just made final.
\<close>

theorem report_lossy_invariant:
  "(import_docx L now content name store = Inr res \<longrightarrow>
      lossy (report res) = (unsupported_elements (report res) \<noteq> []))
   \<and> lossy (snd (export_note_to_docx clk ttl md))
       = (unsupported_elements (snd (export_note_to_docx clk ttl md)) \<noteq> [])"
proof
  show "import_docx L now content name store = Inr res \<longrightarrow>
      lossy (report res) = (unsupported_elements (report res) \<noteq> [])"
    using import_docx_finish finish_import_lossy by blast
  show "lossy (snd (export_note_to_docx clk ttl md))
       = (unsupported_elements (snd (export_note_to_docx clk ttl md)) \<noteq> [])"
    by (simp add: export_note_to_docx_def export_report_def Let_def)
qed

theorem report_lossy_invariant_witness:
  "import_docx
     (sample_lib_doc (sample_doc [sample_p [sample_r ''Hi''],
                                  Elem (qn W_NS ''bookmarkStart'') [] None []]))
     ''2026-01-01T00:00:00+00:00'' ''PK'' ''a.docx'' False
   = Inr \<lparr>title = ''a'', markdown = ''Hi'', html = ''<p>Hi</p>'',
          report = \<lparr>source = Some ''a.docx'', mapped = zero_mapped,
                    unsupported_elements = [''bookmarkStart''], lossy = True\<rparr>,
          original_attachment = None\<rparr>
   \<and> lossy \<lparr>source = Some ''a.docx'', mapped = zero_mapped,
            unsupported_elements = [''bookmarkStart''], lossy = True\<rparr>
     = ([''bookmarkStart''] \<noteq> [])"
proof -
  have h: "import_docx
     (sample_lib_doc (sample_doc [sample_p [sample_r ''Hi''],
                                  Elem (qn W_NS ''bookmarkStart'') [] None []]))
     ''2026-01-01T00:00:00+00:00'' ''PK'' ''a.docx'' False
   = Inr \<lparr>title = ''a'', markdown = ''Hi'', html = ''<p>Hi</p>'',
          report = \<lparr>source = Some ''a.docx'', mapped = zero_mapped,
                    unsupported_elements = [''bookmarkStart''], lossy = True\<rparr>,
          original_attachment = None\<rparr>"
    by code_simp
  from report_lossy_invariant [THEN conjunct1, rule_format, OF h] h
  show ?thesis by simp
qed

section \<open>A container without the main document part\<close>

text \<open>
  C5. When the archive opens and has no member \<open>word/document.xml\<close>, the import raises
  (the \<open>ValueError\<close> of the source is the format error of the specification) and
  returns no conversion result.
\<close>

theorem import_missing_main_document:
  "ZipFile L content = Some docx_zip \<Longrightarrow> docx_zip ''word/document.xml'' = None \<Longrightarrow>
     import_docx L now content name store
       = Inl (ValueError ''Invalid DOCX file: missing word/document.xml'')"
  by (simp add: import_docx_def)

theorem import_missing_main_document_witness:
  "ZipFile (sample_lib [(''word/footnotes.xml'', ''F'')] []) ''PK''
     = Some (map_of [(''word/footnotes.xml'', ''F'')])
   \<and> map_of [(''word/footnotes.xml'', ''F'')] ''word/document.xml'' = None
   \<and> import_docx (sample_lib [(''word/footnotes.xml'', ''F'')] [])
        ''2026-01-01T00:00:00+00:00'' ''PK'' ''a.docx'' False
       = Inl (ValueError ''Invalid DOCX file: missing word/document.xml'')"
proof -
  have z: "ZipFile (sample_lib [(''word/footnotes.xml'', ''F'')] []) ''PK''
     = Some (map_of [(''word/footnotes.xml'', ''F'')])"
    by (simp add: sample_lib_def)
  have m: "map_of [(''word/footnotes.xml'', ''F'')] ''word/document.xml'' = None"
    by simp
  from import_missing_main_document [OF z m] z m show ?thesis by simp
qed

section \<open>The order of footnotes and comments\<close>

text \<open>
  C3. A document that refers to the footnotes \<open>1\<close> and \<open>a\<close>, both defined: the key
  of the first is an integer and the key of the second a string, and sorting them
  raises \<open>TypeError\<close>; the import returns no result, where the claim has the section
  list \<open>1\<close> before \<open>a\<close>.
\<close>

theorem footnote_mixed_ids_raise:
  "import_docx
     (sample_lib [(''word/document.xml'', ''D''), (''word/footnotes.xml'', ''F'')]
        [(''D'', sample_doc [sample_p [sample_r ''x'', sample_fn_ref ''1'', sample_fn_ref ''a'']]),
         (''F'', Elem (qn W_NS ''footnotes'') [] None
                  [sample_entry ''footnote'' [(qn W_NS ''id'', ''1'')] ''one'',
                   sample_entry ''footnote'' [(qn W_NS ''id'', ''a'')] ''letter''])])
     ''2026-01-01T00:00:00+00:00'' ''PK'' ''a.docx'' False
   = Inl TypeError"
  by code_simp

text \<open>
  On ids that are all decimal numbers (of at most 4300 digits) the sort does what the
  claim says: it returns the ids of the set in ascending order of their values.
\<close>

lemma id_keys_numeric:
  assumes "\<forall>x\<in>set zs. x \<noteq> [] \<and> list_all is_ascii_digit x \<and> length x \<le> 4300"
  shows "\<exists>ks. id_keys zs = Inr ks \<and> map snd ks = zs
           \<and> (\<forall>p\<in>set ks. py_int (snd p) = Inr (int_of_key (fst p)) \<and> is_KInt (fst p))"
  using assms
proof (induction zs)
  case Nil
  then show ?case by simp
next
  case (Cons z zs)
  then obtain ks where ks: "id_keys zs = Inr ks" "map snd ks = zs"
    "\<forall>p\<in>set ks. py_int (snd p) = Inr (int_of_key (fst p)) \<and> is_KInt (fst p)"
    by auto
  from Cons.prems have d: "z \<noteq> []" "list_all is_ascii_digit z" "length z \<le> 4300" by auto
  then have "isdigit z" by (auto simp: isdigit_def isdigit_char_def list_all_iff)
  moreover have "length (takeWhile is_ascii_digit z) \<le> length z" by (rule length_takeWhile_le)
  with d obtain n where n: "py_int z = Inr n" by (simp add: py_int_def)
  ultimately have "id_key z = Inr (KInt n)" by (simp add: id_key_def)
  with ks n show ?case by (simp add: is_KInt_def int_of_key_def)
qed

lemma sorted_ids_numeric:
  assumes "\<forall>x\<in>set (set_iter L xs). x \<noteq> [] \<and> list_all is_ascii_digit x
             \<and> length x \<le> 4300"
  shows "\<exists>ks. sorted_ids L xs = Inr (map snd ks)
           \<and> set (map snd ks) = set (set_iter L xs)
           \<and> sorted (map (\<lambda>p. int_of_key (fst p)) ks)
           \<and> (\<forall>p\<in>set ks. py_int (snd p) = Inr (int_of_key (fst p)))"
proof -
  from id_keys_numeric [OF assms] obtain ks where ks: "id_keys (set_iter L xs) = Inr ks"
    "map snd ks = set_iter L xs"
    "\<forall>p\<in>set ks. py_int (snd p) = Inr (int_of_key (fst p)) \<and> is_KInt (fst p)"
    by blast
  let ?s = "sort_key (\<lambda>p. int_of_key (fst p)) ks"
  from ks(3) have "\<not> list_ex (\<lambda>p. \<not> is_KInt (fst p)) ks" "list_all (\<lambda>p. is_KInt (fst p)) ks"
    by (auto simp: list_ex_iff list_all_iff)
  with ks(1) have "sorted_ids L xs = Inr (map snd ?s)" by (simp add: sorted_ids_def)
  moreover have "set (map snd ?s) = set (set_iter L xs)"
    using ks(2) by (metis set_map set_sort)
  moreover have "sorted (map (\<lambda>p. int_of_key (fst p)) ?s)" by (rule sorted_sort_key)
  moreover have "\<forall>p\<in>set ?s. py_int (snd p) = Inr (int_of_key (fst p))"
    using ks(3) by simp
  ultimately show ?thesis by blast
qed

section \<open>Table rows\<close>

text \<open>
  C8, as stated, fails: the row \<open>| a | |\<close> is not among the lines of the markup, whether
  the second row of the table has one cell or two cells of which the second is empty.
\<close>

theorem table_row_counterexample:
  "''| a | |'' \<notin> set (case import_docx
        (sample_lib_doc (sample_doc
           [sample_tbl [sample_tr [sample_tc ''h1'', sample_tc ''h2''],
                        sample_tr [sample_tc ''a'']]]))
        ''2026-01-01T00:00:00+00:00'' ''PK'' ''a.docx'' False
      of Inl e \<Rightarrow> [] | Inr r \<Rightarrow> splitlines (markdown r))
   \<and> ''| a | |'' \<notin> set (case import_docx
        (sample_lib_doc (sample_doc
           [sample_tbl [sample_tr [sample_tc ''h1'', sample_tc ''h2''],
                        sample_tr [sample_tc ''a'', sample_tc '''']]]))
        ''2026-01-01T00:00:00+00:00'' ''PK'' ''a.docx'' False
      of Inl e \<Rightarrow> [] | Inr r \<Rightarrow> splitlines (markdown r))"
  by code_simp

text \<open>
  C8, amended. The row is \<open>| a |  |\<close>: the empty cell stands between the separator
  \<open> | \<close> and the closing \<open> |\<close>, which leaves two spaces between the last two pipes.
\<close>

theorem table_row_two_spaces:
  "md_row (pad_row [h1, h2] [''a'']) = ''| a |  |''
   \<and> md_row (pad_row [h1, h2] [''a'', []]) = ''| a |  |''
   \<and> map_sum id (\<lambda>r. splitlines (markdown r))
        (import_docx
          (sample_lib_doc (sample_doc
             [sample_tbl [sample_tr [sample_tc ''h1'', sample_tc ''h2''],
                          sample_tr [sample_tc ''a'']]]))
          ''2026-01-01T00:00:00+00:00'' ''PK'' ''a.docx'' False)
      = Inr [''| h1 | h2 |'', ''| --- | --- |'', ''| a |  |'']"
proof (intro conjI)
  show "md_row (pad_row [h1, h2] [''a'']) = ''| a |  |''"
    by (simp add: md_row_def pad_row_def)
  show "md_row (pad_row [h1, h2] [''a'', []]) = ''| a |  |''"
    by (simp add: md_row_def pad_row_def)
  show "map_sum id (\<lambda>r. splitlines (markdown r))
        (import_docx
          (sample_lib_doc (sample_doc
             [sample_tbl [sample_tr [sample_tc ''h1'', sample_tc ''h2''],
                          sample_tr [sample_tc ''a'']]]))
          ''2026-01-01T00:00:00+00:00'' ''PK'' ''a.docx'' False)
      = Inr [''| h1 | h2 |'', ''| --- | --- |'', ''| a |  |'']"
    by code_simp
qed

section \<open>The export line scanner\<close>












section \<open>Rectangular tables\<close>

lemma table_rows_nonempty:
  "table_rows trs rep rel_map = (rows, rep1) \<Longrightarrow> [] \<notin> set rows"
  by (induction trs arbitrary: rep rows rep1) (auto split: prod.splits if_splits)

lemma pad_row_length: "length (pad_row header row) = length header"
  by (simp add: pad_row_def)

lemma pad_row_short:
  "length row \<le> length header \<Longrightarrow>
     pad_row header row = row @ replicate (length header - length row) []"
  by (simp add: pad_row_def nat_diff_distrib')

lemma pad_row_long:
  "length header \<le> length row \<Longrightarrow> pad_row header row = take (length header) row"
  by (simp add: pad_row_def)

text \<open>
  C7. When the rows of a table that have cells are a header and further rows, the
  markup is the header line, the separator line and one line for each further row padded
  to the header: the padded row has as many cells as the header, it is the row followed
  by empty strings when the row is not longer than the header, and the first cells of
  the row when it is not shorter.
\<close>

theorem table_rows_rectangular:
  assumes "table_rows (findall table (qn W_NS ''tr'')) rep rel_map = (header # rest, rep1)"
  shows "fst (parse_table table rep rel_map)
           = join [CHR 0x0A]
               (md_row header # md_row (replicate (length header) ''---'')
                  # map (\<lambda>row. md_row (pad_row header row)) rest)
         \<and> header \<noteq> []
         \<and> (\<forall>row\<in>set rest.
               length (pad_row header row) = length header
               \<and> (length row \<le> length header
                    \<longrightarrow> pad_row header row = row @ replicate (length header - length row) [])
               \<and> (length header \<le> length row
                    \<longrightarrow> pad_row header row = take (length header) row))"
proof (intro conjI ballI impI)
  show "fst (parse_table table rep rel_map)
           = join [CHR 0x0A]
               (md_row header # md_row (replicate (length header) ''---'')
                  # map (\<lambda>row. md_row (pad_row header row)) rest)"
    using assms by (simp add: parse_table_def)
  show "header \<noteq> []" using table_rows_nonempty [OF assms] by auto
next
  fix row
  show "length (pad_row header row) = length header" by (rule pad_row_length)
  show "pad_row header row = row @ replicate (length header - length row) []"
    if "length row \<le> length header" using that by (rule pad_row_short)
  show "pad_row header row = take (length header) row"
    if "length header \<le> length row" using that by (rule pad_row_long)
qed

theorem table_rows_rectangular_witness:
  "table_rows
     (findall (sample_tbl [sample_tr [sample_tc ''h1'', sample_tc ''h2''],
                           sample_tr [sample_tc ''a''],
                           sample_tr [sample_tc ''x'', sample_tc ''y'', sample_tc ''z'']])
        (qn W_NS ''tr''))
     (initial_report ''a.docx'') Map.empty
     = ([''h1'', ''h2''] # [[''a''], [''x'', ''y'', ''z'']], initial_report ''a.docx'')
   \<and> fst (parse_table
        (sample_tbl [sample_tr [sample_tc ''h1'', sample_tc ''h2''],
                     sample_tr [sample_tc ''a''],
                     sample_tr [sample_tc ''x'', sample_tc ''y'', sample_tc ''z'']])
        (initial_report ''a.docx'') Map.empty)
     = join [CHR 0x0A] [''| h1 | h2 |'', ''| --- | --- |'', ''| a |  |'', ''| x | y |'']
   \<and> pad_row [''h1'', ''h2''] [''a''] = [''a'', []]
   \<and> pad_row [''h1'', ''h2''] [''x'', ''y'', ''z''] = [''x'', ''y'']"
proof -
  have h: "table_rows
     (findall (sample_tbl [sample_tr [sample_tc ''h1'', sample_tc ''h2''],
                           sample_tr [sample_tc ''a''],
                           sample_tr [sample_tc ''x'', sample_tc ''y'', sample_tc ''z'']])
        (qn W_NS ''tr''))
     (initial_report ''a.docx'') Map.empty
     = ([''h1'', ''h2''] # [[''a''], [''x'', ''y'', ''z'']], initial_report ''a.docx'')"
    by code_simp
  have p: "pad_row [''h1'', ''h2''] [''a''] = [''a'', []]
     \<and> pad_row [''h1'', ''h2''] [''x'', ''y'', ''z''] = [''x'', ''y'']"
    by (simp add: pad_row_def)
  have m: "md_row [''h1'', ''h2''] = ''| h1 | h2 |'' \<and> md_row [''---'', ''---''] = ''| --- | --- |''
     \<and> md_row [''a'', []] = ''| a |  |'' \<and> md_row [''x'', ''y''] = ''| x | y |''"
    by (simp add: md_row_def)
  have r: "replicate (length [''h1'', ''h2'']) ''---'' = [''---'', ''---'']"
    by (simp add: numeral_2_eq_2)
  from table_rows_rectangular [OF h, THEN conjunct1] h p m r
  show ?thesis by simp
qed

section \<open>Heading levels\<close>


























section \<open>The footnote and comment tables\<close>

lemma footnote_step_dom:
  "footnote_step fns e k \<noteq> None \<longleftrightarrow>
     fns k \<noteq> None
     \<or> (attr_get e (qn W_NS ''id'') = Some k \<and> k \<noteq> [] \<and> \<not> startswith k ''-''
          \<and> entry_text e \<noteq> [])"
  by (auto simp: footnote_step_def split: option.splits)

lemma footnote_fold_dom:
  "foldl footnote_step fns es k \<noteq> None \<longleftrightarrow>
     fns k \<noteq> None
     \<or> (\<exists>e\<in>set es. attr_get e (qn W_NS ''id'') = Some k \<and> k \<noteq> []
            \<and> \<not> startswith k ''-'' \<and> entry_text e \<noteq> [])"
proof (induction es arbitrary: fns)
  case Nil
  then show ?case by simp
next
  case (Cons e es)
  show ?case
    unfolding foldl_Cons Cons.IH footnote_step_dom by auto
qed

lemma comment_step_dom:
  "comment_step cms e k \<noteq> None \<longleftrightarrow>
     cms k \<noteq> None
     \<or> (attr_get e (qn W_NS ''id'') = Some k \<and> k \<noteq> [] \<and> entry_text e \<noteq> [])"
  by (auto simp: comment_step_def split: option.splits)

lemma comment_fold_dom:
  "foldl comment_step cms es k \<noteq> None \<longleftrightarrow>
     cms k \<noteq> None
     \<or> (\<exists>e\<in>set es. attr_get e (qn W_NS ''id'') = Some k \<and> k \<noteq> []
            \<and> entry_text e \<noteq> [])"
proof (induction es arbitrary: cms)
  case Nil
  then show ?case by simp
next
  case (Cons e es)
  show ?case
    unfolding foldl_Cons Cons.IH comment_step_dom by auto
qed

text \<open>
  C6, as stated, fails for the comments part, where an id that starts with the negative
  marker is no reason to skip: the comment \<open>-1\<close> with text \<open>note\<close> is in the table.
  It also fails on an id that is present and empty, which both extractions skip: a
  footnote with the id \<open>""\<close> and text is not in the table.
\<close>

theorem comment_negative_id_counterexample:
  "(case extract_comments sample_aux_lib (map_of sample_aux_members) of
      Inl err \<Rightarrow> None | Inr table \<Rightarrow> table ''-1'') = Some ''note''
   \<and> (case extract_footnotes
            (sample_lib [(''word/footnotes.xml'', ''F'')]
               [(''F'', Elem (qn W_NS ''footnotes'') [] None
                         [sample_entry ''footnote'' [(qn W_NS ''id'', [])] ''kept?''])])
            (map_of [(''word/footnotes.xml'', ''F'')]) of
      Inl err \<Rightarrow> Some ''error'' | Inr table \<Rightarrow> table []) = None"
  by code_simp

text \<open>
  C6, amended. A footnote entry is skipped exactly when its id is absent or empty, or
  starts with \<open>-\<close>, or its trimmed text is empty; a comment entry exactly when its id
  is absent or empty or its trimmed text is empty. Every other entry is stored under
  its id. So the ids of the table of a part are those of the entries that are not
  skipped.
\<close>

theorem auxiliary_table_entries:
  "(footnote_step fns e =
      (case attr_get e (qn W_NS ''id'') of
         None \<Rightarrow> fns
       | Some i \<Rightarrow> if i = [] \<or> startswith i ''-'' \<or> entry_text e = [] then fns
                   else fns(i \<mapsto> entry_text e)))
   \<and> (comment_step cms e =
      (case attr_get e (qn W_NS ''id'') of
         None \<Rightarrow> cms
       | Some i \<Rightarrow> if i = [] \<or> entry_text e = [] then cms
                   else cms(i \<mapsto> entry_text e)))
   \<and> (docx_zip ''word/footnotes.xml'' = Some fdata \<and> fromstring L fdata = Some froot
        \<longrightarrow> (\<exists>table. extract_footnotes L docx_zip = Inr table
              \<and> (\<forall>k. table k \<noteq> None \<longleftrightarrow>
                    (\<exists>e\<in>set (findall froot (qn W_NS ''footnote'')).
                       attr_get e (qn W_NS ''id'') = Some k \<and> k \<noteq> []
                       \<and> \<not> startswith k ''-'' \<and> entry_text e \<noteq> []))))
   \<and> (docx_zip ''word/comments.xml'' = Some cdata \<and> fromstring L cdata = Some croot
        \<longrightarrow> (\<exists>table. extract_comments L docx_zip = Inr table
              \<and> (\<forall>k. table k \<noteq> None \<longleftrightarrow>
                    (\<exists>e\<in>set (findall croot (qn W_NS ''comment'')).
                       attr_get e (qn W_NS ''id'') = Some k \<and> k \<noteq> []
                       \<and> entry_text e \<noteq> []))))"
proof (intro conjI impI)
  show "footnote_step fns e =
      (case attr_get e (qn W_NS ''id'') of
         None \<Rightarrow> fns
       | Some i \<Rightarrow> if i = [] \<or> startswith i ''-'' \<or> entry_text e = [] then fns
                   else fns(i \<mapsto> entry_text e))"
    by (simp add: footnote_step_def split: option.splits)
  show "comment_step cms e =
      (case attr_get e (qn W_NS ''id'') of
         None \<Rightarrow> cms
       | Some i \<Rightarrow> if i = [] \<or> entry_text e = [] then cms
                   else cms(i \<mapsto> entry_text e))"
    by (simp add: comment_step_def split: option.splits)
next
  assume h: "docx_zip ''word/footnotes.xml'' = Some fdata \<and> fromstring L fdata = Some froot"
  then have "extract_footnotes L docx_zip
      = Inr (foldl footnote_step Map.empty (findall froot (qn W_NS ''footnote'')))"
    by (simp add: extract_footnotes_def)
  then show "\<exists>table. extract_footnotes L docx_zip = Inr table
              \<and> (\<forall>k. table k \<noteq> None \<longleftrightarrow>
                    (\<exists>e\<in>set (findall froot (qn W_NS ''footnote'')).
                       attr_get e (qn W_NS ''id'') = Some k \<and> k \<noteq> []
                       \<and> \<not> startswith k ''-'' \<and> entry_text e \<noteq> []))"
    using footnote_fold_dom [of Map.empty] by simp
next
  assume h: "docx_zip ''word/comments.xml'' = Some cdata \<and> fromstring L cdata = Some croot"
  then have "extract_comments L docx_zip
      = Inr (foldl comment_step Map.empty (findall croot (qn W_NS ''comment'')))"
    by (simp add: extract_comments_def)
  then show "\<exists>table. extract_comments L docx_zip = Inr table
              \<and> (\<forall>k. table k \<noteq> None \<longleftrightarrow>
                    (\<exists>e\<in>set (findall croot (qn W_NS ''comment'')).
                       attr_get e (qn W_NS ''id'') = Some k \<and> k \<noteq> []
                       \<and> entry_text e \<noteq> []))"
    using comment_fold_dom [of Map.empty] by simp
qed

theorem auxiliary_table_entries_witness:
  "map_of sample_aux_members ''word/footnotes.xml'' = Some ''F''
   \<and> fromstring sample_aux_lib ''F'' = Some sample_footnotes_part
   \<and> map_of sample_aux_members ''word/comments.xml'' = Some ''C''
   \<and> fromstring sample_aux_lib ''C'' = Some sample_comments_part
   \<and> (\<exists>table. extract_footnotes sample_aux_lib (map_of sample_aux_members) = Inr table
         \<and> table ''2'' \<noteq> None \<and> table ''-1'' = None \<and> table ''3'' = None)
   \<and> (\<exists>table. extract_comments sample_aux_lib (map_of sample_aux_members) = Inr table
         \<and> table ''-1'' \<noteq> None)"
proof -
  have f: "map_of sample_aux_members ''word/footnotes.xml'' = Some ''F''
      \<and> fromstring sample_aux_lib ''F'' = Some sample_footnotes_part"
    by code_simp
  have c: "map_of sample_aux_members ''word/comments.xml'' = Some ''C''
      \<and> fromstring sample_aux_lib ''C'' = Some sample_comments_part"
    by code_simp
  have fe: "findall sample_footnotes_part (qn W_NS ''footnote'')
      = [sample_entry ''footnote'' [(qn W_NS ''id'', ''-1'')] ''sep'',
         sample_entry ''footnote'' [(qn W_NS ''id'', ''2'')] ''two'',
         sample_entry ''footnote'' [] ''lost'',
         sample_entry ''footnote'' [(qn W_NS ''id'', ''3'')] ''  '']"
    by code_simp
  have ce: "findall sample_comments_part (qn W_NS ''comment'')
      = [sample_entry ''comment'' [(qn W_NS ''id'', ''-1'')] ''note'']"
    by code_simp
  have ids: "attr_get (sample_entry ''footnote'' [(qn W_NS ''id'', ''-1'')] ''sep'') (qn W_NS ''id'') = Some ''-1''"
    "attr_get (sample_entry ''footnote'' [(qn W_NS ''id'', ''2'')] ''two'') (qn W_NS ''id'') = Some ''2''"
    "attr_get (sample_entry ''footnote'' [] ''lost'') (qn W_NS ''id'') = None"
    "attr_get (sample_entry ''footnote'' [(qn W_NS ''id'', ''3'')] ''  '') (qn W_NS ''id'') = Some ''3''"
    "attr_get (sample_entry ''comment'' [(qn W_NS ''id'', ''-1'')] ''note'') (qn W_NS ''id'') = Some ''-1''"
    by (simp_all add: attr_get_def sample_entry_def)
  have etx: "entry_text (sample_entry ''footnote'' [(qn W_NS ''id'', ''2'')] ''two'') = ''two''"
    "entry_text (sample_entry ''footnote'' [(qn W_NS ''id'', ''3'')] ''  '') = []"
    "entry_text (sample_entry ''comment'' [(qn W_NS ''id'', ''-1'')] ''note'') = ''note''"
    by code_simp+
  have sw: "startswith ''-1'' ''-''" "\<not> startswith ''2'' ''-''"
    by (simp_all add: startswith_def)
  from auxiliary_table_entries [where docx_zip = "map_of sample_aux_members" and fdata = "''F''"
      and L = sample_aux_lib and froot = sample_footnotes_part, THEN conjunct2, THEN conjunct2, THEN conjunct1, rule_format, OF f]
  obtain ft where ft: "extract_footnotes sample_aux_lib (map_of sample_aux_members) = Inr ft"
    and fk: "\<And>k. ft k \<noteq> None \<longleftrightarrow>
       (\<exists>e\<in>set (findall sample_footnotes_part (qn W_NS ''footnote'')).
          attr_get e (qn W_NS ''id'') = Some k \<and> k \<noteq> []
          \<and> \<not> startswith k ''-'' \<and> entry_text e \<noteq> [])"
    by blast
  from auxiliary_table_entries [where docx_zip = "map_of sample_aux_members" and cdata = "''C''"
      and L = sample_aux_lib and croot = sample_comments_part, THEN conjunct2, THEN conjunct2, THEN conjunct2, rule_format, OF c]
  obtain ct where ct: "extract_comments sample_aux_lib (map_of sample_aux_members) = Inr ct"
    and ck: "\<And>k. ct k \<noteq> None \<longleftrightarrow>
       (\<exists>e\<in>set (findall sample_comments_part (qn W_NS ''comment'')).
          attr_get e (qn W_NS ''id'') = Some k \<and> k \<noteq> [] \<and> entry_text e \<noteq> [])"
    by blast
  have f2: "ft ''2'' \<noteq> None" unfolding fk fe using ids etx sw by simp
  have f1: "ft ''-1'' = None" using fk [of "''-1''"] unfolding fe using ids etx sw by simp
  have f3: "ft ''3'' = None" using fk [of "''3''"] unfolding fe using ids etx sw by simp
  have c1: "ct ''-1'' \<noteq> None" unfolding ck ce using ids etx by simp
  from f c ft ct f1 f2 f3 c1 show ?thesis by blast
qed

section \<open>Headings without text\<close>




section \<open>What a run depends on\<close>



















end
